theory Spec2Isabelle
  imports Main "HOL-Library.Sublist" "HOL-Library.AList"
begin

section \<open>Chess analytics: the PGN record parser and the classifiers\<close>

text \<open>
  A shallow embedding of \<^verbatim>\<open>analyze_chess_games.py\<close>. Python's \<^verbatim>\<open>str\<close> is modelled
  by \<^typ>\<open>string\<close>; a \<^typ>\<open>char\<close> stands for the Unicode code point of the same number
  (U+0000 to U+00FF), and the character classes below are the ones Python 3 uses on
  that range. Code points above U+00FF are outside the model. Python's \<^verbatim>\<open>int\<close> is
  \<^typ>\<open>int\<close>; \<^verbatim>\<open>None\<close> is \<^term>\<open>None\<close>. A file is the list of its lines as the
  iteration over the file object yields them; opening and decoding the file, walking
  the directories and writing the table are not modelled.
\<close>

subsection \<open>Characters and strings\<close>

text \<open>\<^verbatim>\<open>str.isspace\<close>, which is also the class \<^verbatim>\<open>\s\<close> of \<^verbatim>\<open>re\<close> and what \<^verbatim>\<open>str.strip()\<close> removes.\<close>

definition is_space :: "char \<Rightarrow> bool" where
  "is_space c = (let n = (of_char c :: nat) in
     (9 \<le> n \<and> n \<le> 13) \<or> (28 \<le> n \<and> n \<le> 32) \<or> n = 133 \<or> n = 160)"

text \<open>The class \<^verbatim>\<open>\d\<close> of \<^verbatim>\<open>re\<close>: the decimal digits.\<close>

definition is_digit :: "char \<Rightarrow> bool" where
  "is_digit c = (let n = (of_char c :: nat) in 48 \<le> n \<and> n \<le> 57)"

text \<open>The class \<^verbatim>\<open>\w\<close> of \<^verbatim>\<open>re\<close>: alphanumeric characters and the underscore.\<close>

definition is_word :: "char \<Rightarrow> bool" where
  "is_word c = (let n = (of_char c :: nat) in
     (48 \<le> n \<and> n \<le> 57) \<or> (65 \<le> n \<and> n \<le> 90) \<or> n = 95 \<or> (97 \<le> n \<and> n \<le> 122) \<or>
     n = 170 \<or> n = 178 \<or> n = 179 \<or> n = 181 \<or> n = 185 \<or> n = 186 \<or>
     (188 \<le> n \<and> n \<le> 190) \<or> (192 \<le> n \<and> n \<le> 214) \<or> (216 \<le> n \<and> n \<le> 246) \<or>
     (248 \<le> n \<and> n \<le> 255))"

text \<open>The class \<^verbatim>\<open>.\<close> of \<^verbatim>\<open>re\<close> without flags: everything but the line feed.\<close>

definition is_dot :: "char \<Rightarrow> bool" where
  "is_dot c = (c \<noteq> CHR 0x0A)"

text \<open>\<^verbatim>\<open>str.lower()\<close>, character by character.\<close>

definition lower_char :: "char \<Rightarrow> char" where
  "lower_char c = (let n = (of_char c :: nat) in
     if (65 \<le> n \<and> n \<le> 90) \<or> (192 \<le> n \<and> n \<le> 222 \<and> n \<noteq> 215) then char_of (n + 32) else c)"

definition lower :: "string \<Rightarrow> string" where
  "lower s = map lower_char s"

text \<open>\<^verbatim>\<open>str.strip()\<close>: whitespace removed at both ends.\<close>

definition strip :: "string \<Rightarrow> string" where
  "strip s = rev (dropWhile is_space (rev (dropWhile is_space s)))"

text \<open>\<^verbatim>\<open>s.startswith(p)\<close> and \<^verbatim>\<open>s.endswith(p)\<close>.\<close>

fun startswith :: "string \<Rightarrow> string \<Rightarrow> bool" where
  "startswith s [] = True"
| "startswith [] (p # ps) = False"
| "startswith (c # cs) (p # ps) = (c = p \<and> startswith cs ps)"

definition endswith :: "string \<Rightarrow> string \<Rightarrow> bool" where
  "endswith s p = startswith (rev s) (rev p)"

text \<open>\<^verbatim>\<open>sub in s\<close> on strings: \<^verbatim>\<open>sub\<close> occurs in \<^verbatim>\<open>s\<close> as a contiguous block.\<close>

fun str_in :: "string \<Rightarrow> string \<Rightarrow> bool" where
  "str_in sub [] = (sub = [])"
| "str_in sub (c # cs) = (startswith (c # cs) sub \<or> str_in sub cs)"

subsection \<open>Length and loss-quality classifiers\<close>

definition classify_game_length :: "int \<Rightarrow> string" where
  "classify_game_length move_count =
     (if move_count < 20 then ''Quick''
      else if move_count \<le> 40 then ''Medium''
      else ''Long'')"

definition classify_loss_quality :: "string \<Rightarrow> int \<Rightarrow> string" where
  "classify_loss_quality folder move_count =
     (if folder \<noteq> ''loss'' then ''N/A''
      else if move_count < 15 then ''Quick Loss''
      else if move_count < 30 then ''Standard Loss''
      else ''Well-Fought Loss'')"

subsection \<open>Opening resolver\<close>

text \<open>
  The catalog is a Python \<^verbatim>\<open>dict\<close> literal; iteration over \<^verbatim>\<open>items()\<close> follows insertion
  order, so it is kept as an association list in the order of the literal. Its keys are
  distinct (\<open>ECO_OPENINGS_distinct\<close> below), so no entry of the literal overwrites
  another one.
\<close>

definition ECO_OPENINGS :: "(string \<times> string) list" where
  "ECO_OPENINGS = [
    (''A00'', ''Uncommon Opening''), (''A01'', ''Nimzo-Larsen Attack''), (''A02'', ''Bird's Opening''),
    (''A04'', ''Reti Opening''), (''A10'', ''English Opening''), (''A20'', ''English Opening''),
    (''A28'', ''English Opening: Four Knights''), (''A40'', ''Queen's Pawn Game''), (''A45'', ''Trompowsky Attack''),
    (''A46'', ''Indian Game''), (''A48'', ''London System''),
    (''B00'', ''Uncommon King's Pawn Opening''), (''B01'', ''Scandinavian Defense''),
    (''B02'', ''Alekhine's Defense''), (''B07'', ''Pirc Defense''), (''B10'', ''Caro-Kann Defense''),
    (''B12'', ''Caro-Kann Defense''), (''B20'', ''Sicilian Defense''), (''B21'', ''Sicilian: Smith-Morra Gambit''),
    (''B22'', ''Sicilian: Alapin''), (''B27'', ''Sicilian Defense''), (''B30'', ''Sicilian Defense''),
    (''B40'', ''Sicilian Defense''), (''B44'', ''Sicilian: Taimanov''),
    (''B50'', ''Sicilian Defense''), (''B90'', ''Sicilian: Najdorf''),
    (''C00'', ''French Defense''), (''C02'', ''French: Advance Variation''),
    (''C20'', ''King's Pawn Game''), (''C21'', ''Center Game''), (''C23'', ''Bishop's Opening''),
    (''C25'', ''Vienna Game''), (''C28'', ''Vienna Game''),
    (''C40'', ''King's Knight Opening''), (''C42'', ''Petrov's Defense''), (''C44'', ''Scotch Game''),
    (''C45'', ''Scotch Game''), (''C46'', ''Three Knights Game''), (''C47'', ''Four Knights Game''),
    (''C50'', ''Italian Game''), (''C55'', ''Italian Game: Two Knights''),
    (''C60'', ''Ruy Lopez''), (''C65'', ''Ruy Lopez: Berlin Defense''),
    (''D00'', ''Queen's Pawn Game''), (''D02'', ''London System''), (''D06'', ''Queen's Gambit''),
    (''D10'', ''Slav Defense''), (''D11'', ''Slav Defense''), (''D20'', ''Queen's Gambit Accepted''),
    (''D23'', ''Queen's Gambit Accepted''), (''D30'', ''Queen's Gambit Declined''),
    (''D31'', ''Queen's Gambit Declined''), (''D35'', ''Queen's Gambit Declined''),
    (''D37'', ''Queen's Gambit Declined''), (''D55'', ''Queen's Gambit Declined''),
    (''E00'', ''Indian Defense''), (''E04'', ''Catalan Opening''),
    (''E10'', ''Indian Defense''), (''E20'', ''Nimzo-Indian Defense''), (''E24'', ''Nimzo-Indian Defense''),
    (''E60'', ''King's Indian Defense''), (''E70'', ''King's Indian Defense'')]"

text \<open>
  The inner loop \<^verbatim>\<open>for key, value in ECO_OPENINGS.items()\<close>: \<open>Some value\<close> is the
  \<^verbatim>\<open>return value\<close> of the first entry whose key starts with the prefix, \<open>None\<close> is the
  loop running to its end.
\<close>

fun scan_items :: "string \<Rightarrow> (string \<times> string) list \<Rightarrow> string option" where
  "scan_items pre [] = None"
| "scan_items pre ((key, val) # items) =
     (if startswith key pre then Some val else scan_items pre items)"

text \<open>The outer loop \<^verbatim>\<open>for length in [2, 1]\<close>, with \<^verbatim>\<open>eco_code[:length]\<close> as \<open>take\<close>.\<close>

fun scan_lengths :: "(string \<times> string) list \<Rightarrow> string \<Rightarrow> nat list \<Rightarrow> string option" where
  "scan_lengths cat eco_code [] = None"
| "scan_lengths cat eco_code (len # lens) =
     (case scan_items (take len eco_code) cat of
        Some val \<Rightarrow> Some val
      | None \<Rightarrow> scan_lengths cat eco_code lens)"

text \<open>
  \<^verbatim>\<open>get_opening_name\<close> with the catalog as a parameter; \<^verbatim>\<open>not eco_code\<close> holds for
  \<^verbatim>\<open>None\<close> and for the empty string.
\<close>

definition opening_name_in :: "(string \<times> string) list \<Rightarrow> string option \<Rightarrow> string" where
  "opening_name_in cat eco =
     (case eco of
        None \<Rightarrow> ''Unknown''
      | Some eco_code \<Rightarrow>
          if eco_code = [] then ''Unknown''
          else (case map_of cat eco_code of
                  Some name \<Rightarrow> name
                | None \<Rightarrow>
                    (case scan_lengths cat eco_code [2, 1] of
                       Some val \<Rightarrow> val
                     | None \<Rightarrow> ''Unknown'')))"

definition get_opening_name :: "string option \<Rightarrow> string" where
  "get_opening_name eco = opening_name_in ECO_OPENINGS eco"

subsection \<open>Termination classifier\<close>

definition classify_termination :: "string option \<Rightarrow> string" where
  "classify_termination termination =
     (case termination of
        None \<Rightarrow> ''Unknown''
      | Some t \<Rightarrow>
          if t = [] then ''Unknown''
          else let term_lower = lower t in
            if str_in ''checkmate'' term_lower then ''Checkmate''
            else if str_in ''resignation'' term_lower then ''Resignation''
            else if str_in ''timeout'' term_lower then ''Timeout''
            else if str_in ''abandoned'' term_lower then ''Abandoned''
            else if str_in ''agreement'' term_lower then ''Draw by Agreement''
            else if str_in ''repetition'' term_lower then ''Draw by Repetition''
            else if str_in ''stalemate'' term_lower then ''Stalemate''
            else if str_in ''insufficient'' term_lower then ''Insufficient Material''
            else ''Other'')"

subsection \<open>Regular expressions\<close>

text \<open>
  The two patterns of the source are matched the way \<^verbatim>\<open>re\<close> matches them. \<open>re_star P k s\<close>
  is a greedy repetition of the class \<open>P\<close> followed by the rest \<open>k\<close> of the pattern: it
  consumes a character of the class and goes on, and where that fails it runs \<open>k\<close> on
  what is left, so that characters are given back one at a time until \<open>k\<close> succeeds. The
  result is the text the repetition matched and the result of \<open>k\<close>. \<open>re_plus\<close> is the
  repetition that needs one character at least.
\<close>

fun re_star :: "(char \<Rightarrow> bool) \<Rightarrow> (string \<Rightarrow> 'a option) \<Rightarrow> string \<Rightarrow> (string \<times> 'a) option" where
  "re_star P k [] = map_option (Pair []) (k [])"
| "re_star P k (c # cs) =
     (case (if P c then re_star P k cs else None) of
        Some (g, a) \<Rightarrow> Some (c # g, a)
      | None \<Rightarrow> map_option (Pair []) (k (c # cs)))"

definition re_plus :: "(char \<Rightarrow> bool) \<Rightarrow> (string \<Rightarrow> 'a option) \<Rightarrow> string \<Rightarrow> (string \<times> 'a) option" where
  "re_plus P k s =
     (case s of
        [] \<Rightarrow> None
      | c # cs \<Rightarrow> if P c then map_option (\<lambda>(g, a). (c # g, a)) (re_star P k cs) else None)"

text \<open>
  \<^verbatim>\<open>re.match(r'\[(\w+)\s+"(.*)"\]', line)\<close>: the match starts at the beginning of the line
  and need not reach its end. The result is \<open>(group 1, group 2)\<close>.
\<close>

definition re_match_tag :: "string \<Rightarrow> (string \<times> string) option" where
  "re_match_tag line =
     (case line of
        [] \<Rightarrow> None
      | c # r \<Rightarrow>
          if c \<noteq> CHR ''['' then None
          else (case re_plus is_word
                       (re_plus is_space
                         (\<lambda>r2. case r2 of
                                  [] \<Rightarrow> None
                                | q # r3 \<Rightarrow>
                                    if q \<noteq> CHR 0x22 then None
                                    else re_star is_dot
                                           (\<lambda>r4. if startswith r4 [CHR 0x22, CHR '']''] then Some r4 else None)
                                           r3)) r of
                  None \<Rightarrow> None
                | Some (key, ws, val, rest) \<Rightarrow> Some (key, val)))"

text \<open>
  The pattern \<^verbatim>\<open>(\d+)\.\s\<close> tried at the beginning of a text: \<open>re_dot_space\<close> is its
  part \<^verbatim>\<open>\.\s\<close> and gives the text after the match; the result of \<open>re_match_move\<close> is
  group 1 and the text after the match.
\<close>

definition re_dot_space :: "string \<Rightarrow> string option" where
  "re_dot_space r =
     (case r of
        c1 # c2 # rest \<Rightarrow> if c1 = CHR ''.'' \<and> is_space c2 then Some rest else None
      | _ \<Rightarrow> None)"

definition re_match_move :: "string \<Rightarrow> (string \<times> string) option" where
  "re_match_move s = re_plus is_digit re_dot_space s"

text \<open>
  \<^verbatim>\<open>re.findall(r'(\d+)\.\s', moves_text)\<close>: the pattern is tried at each position from
  left to right; after a match the search goes on behind it, after a failure one
  character further. The result is the list of the groups.
\<close>

function findall_moves :: "string \<Rightarrow> string list" where
  "findall_moves [] = []"
| "findall_moves (c # cs) =
     (case re_match_move (c # cs) of
        Some (g, rest) \<Rightarrow> g # findall_moves rest
      | None \<Rightarrow> findall_moves cs)"
  by pat_completeness auto
termination
proof (relation "measure length")
  show "wf (measure length)" by simp
next
  fix c cs show "(cs, c # cs) \<in> measure length" by simp
next
  fix c :: char and cs :: string and x2 :: "string \<times> string" and g rest :: string
  assume m: "re_match_move (c # cs) = Some x2" and x2: "(g, rest) = x2"
  have tail: "length a < length r" if "re_dot_space r = Some a" for r a
    using that by (auto simp: re_dot_space_def split: list.splits if_splits)
  have star: "length a \<le> length s" if "re_star is_digit re_dot_space s = Some (t, a)" for s t a
    using that
  proof (induction s arbitrary: t)
    case Nil
    then show ?case by (auto dest: tail)
  next
    case (Cons d ds)
    then show ?case
      by (fastforce split: if_splits option.splits dest: tail)
  qed
  from m x2 show "(rest, c # cs) \<in> measure length"
    by (auto simp: re_match_move_def re_plus_def split: if_splits dest!: star)
qed

subsection \<open>Integers from text\<close>

datatype error = ValueError

text \<open>
  \<^verbatim>\<open>int(s)\<close> on a string: whitespace is dropped at both ends (the class is \<^verbatim>\<open>str.isspace\<close>
  without the separators U+001C to U+001F), then comes an optional sign and decimal digits,
  where one underscore may stand between two digits. Everything else raises
  \<^verbatim>\<open>ValueError\<close>, and so does a text with more digits than the interpreter converts:
  \<open>int_max_str_digits\<close> is \<^verbatim>\<open>sys.int_info.default_max_str_digits\<close>, the limit of CPython
  from version 3.11 on when the program does not change it (this one does not). All
  digits count, leading zeros too; the sign, the whitespace and the underscores do not.
\<close>

definition int_max_str_digits :: nat where
  "int_max_str_digits = 4300"

definition is_int_space :: "char \<Rightarrow> bool" where
  "is_int_space c = (let n = (of_char c :: nat) in
     (9 \<le> n \<and> n \<le> 13) \<or> n = 32 \<or> n = 133 \<or> n = 160)"

fun int_body :: "string \<Rightarrow> bool" where
  "int_body [] = False"
| "int_body [c] = is_digit c"
| "int_body (c # d # r) = (is_digit c \<and> (if d = CHR ''_'' then int_body r else int_body (d # r)))"

definition digit_value :: "char \<Rightarrow> nat" where
  "digit_value c = of_char c - 48"

definition digits_value :: "string \<Rightarrow> nat" where
  "digits_value ds = foldl (\<lambda>acc c. 10 * acc + digit_value c) 0 ds"

definition py_int :: "string \<Rightarrow> error + int" where
  "py_int s =
     (let t = rev (dropWhile is_int_space (rev (dropWhile is_int_space s)));
          (negative, body) =
            (case t of
               [] \<Rightarrow> (False, [])
             | c # r \<Rightarrow> if c = CHR ''-'' then (True, r)
                        else if c = CHR ''+'' then (False, r)
                        else (False, t))
      in if int_body body \<and> length (filter is_digit body) \<le> int_max_str_digits
         then Inr ((if negative then - 1 else 1) * int (digits_value (filter is_digit body)))
         else Inl ValueError)"

subsection \<open>Record parser\<close>

text \<open>
  The local variables of \<^verbatim>\<open>parse_pgn\<close>. \<^verbatim>\<open>headers\<close> is a \<^verbatim>\<open>dict\<close>: an association list
  with distinct keys, where \<^verbatim>\<open>headers[k] = v\<close> is \<^const>\<open>AList.update\<close> (the value is
  replaced in place, a new key goes to the end) and \<^verbatim>\<open>if headers\<close> asks whether the
  list is non-empty.
\<close>

record parse_state =
  headers :: "(string \<times> string) list"
  moves_text :: string
  in_moves :: bool

definition parse_init :: parse_state where
  "parse_init = \<lparr>headers = [], moves_text = [], in_moves = False\<rparr>"

text \<open>The body of the loop \<^verbatim>\<open>for line in f\<close>.\<close>

definition parse_line :: "parse_state \<Rightarrow> string \<Rightarrow> parse_state" where
  "parse_line st raw =
     (let line = strip raw in
      if startswith line ''['' \<and> endswith line '']'' then
        (case re_match_tag line of
           Some (key, val) \<Rightarrow> st\<lparr>headers := AList.update key val (headers st)\<rparr>
         | None \<Rightarrow> st)
      else if line = [] then
        (if headers st \<noteq> [] then st\<lparr>in_moves := True\<rparr> else st)
      else if in_moves st then st\<lparr>moves_text := moves_text st @ '' '' @ line\<rparr>
      else st)"

definition parse_lines :: "string list \<Rightarrow> parse_state" where
  "parse_lines block = foldl parse_line parse_init block"

text \<open>
  \<^verbatim>\<open>int(move_numbers[-1]) if move_numbers else 0\<close>; an exception of \<^verbatim>\<open>int\<close> would leave
  \<^verbatim>\<open>parse_pgn\<close>.
\<close>

definition move_count_of :: "string \<Rightarrow> error + int" where
  "move_count_of text =
     (let move_numbers = findall_moves text in
      if move_numbers \<noteq> [] then py_int (last move_numbers) else Inr 0)"

text \<open>\<^verbatim>\<open>parse_pgn\<close> on the lines of the file, in the order in which the file has them.\<close>

definition parse_pgn :: "string list \<Rightarrow> error + ((string \<times> string) list \<times> int)" where
  "parse_pgn block =
     (let st = parse_lines block in
      case move_count_of (moves_text st) of
        Inl e \<Rightarrow> Inl e
      | Inr move_count \<Rightarrow> Inr (headers st, move_count))"

subsection \<open>Colour, rating differential and the enriched record\<close>

text \<open>\<^verbatim>\<open>int(headers.get(key, 0))\<close>: a missing key gives the integer 0, on which \<^verbatim>\<open>int\<close> is the identity.\<close>

definition int_of_header :: "(string \<times> string) list \<Rightarrow> string \<Rightarrow> error + int" where
  "int_of_header hdrs key =
     (case map_of hdrs key of
        None \<Rightarrow> Inr 0
      | Some s \<Rightarrow> py_int s)"

definition color_played_of :: "(string \<times> string) list \<Rightarrow> string \<Rightarrow> string" where
  "color_played_of hdrs username =
     (let white_user = lower (case map_of hdrs ''White'' of None \<Rightarrow> [] | Some w \<Rightarrow> w) in
      if white_user = lower username then ''White'' else ''Black'')"

text \<open>The \<^verbatim>\<open>try\<close> block of \<^verbatim>\<open>main\<close>: a \<^verbatim>\<open>ValueError\<close> of either conversion sets the differential to 0.\<close>

definition rating_diff_of :: "(string \<times> string) list \<Rightarrow> string \<Rightarrow> int" where
  "rating_diff_of hdrs color_played =
     (case int_of_header hdrs ''WhiteElo'' of
        Inl e \<Rightarrow> 0
      | Inr white_elo \<Rightarrow>
          (case int_of_header hdrs ''BlackElo'' of
             Inl e \<Rightarrow> 0
           | Inr black_elo \<Rightarrow>
               if color_played = ''White'' then black_elo - white_elo
               else white_elo - black_elo))"

record game =
  Filename :: string
  Folder :: string
  ColorPlayed :: string
  RatingDiff :: int
  MoveCount :: int
  GameLength :: string
  OpeningName :: string
  LossQuality :: string
  TerminationType :: string
  Tags :: "(string \<times> string) list"

text \<open>
  The body of the loop of \<^verbatim>\<open>main\<close> for one file: the user name, the name of the
  directory, the name of the file and its lines give the row of the table.
\<close>

definition analyze_game :: "string \<Rightarrow> string \<Rightarrow> string \<Rightarrow> string list \<Rightarrow> error + game" where
  "analyze_game username folder file block =
     (case parse_pgn block of
        Inl e \<Rightarrow> Inl e
      | Inr (hdrs, move_count) \<Rightarrow>
          let color_played = color_played_of hdrs username;
              rating_diff = rating_diff_of hdrs color_played
          in Inr \<lparr>Filename = file, Folder = folder, ColorPlayed = color_played,
                  RatingDiff = rating_diff, MoveCount = move_count,
                  GameLength = classify_game_length move_count,
                  OpeningName = get_opening_name (map_of hdrs ''ECO''),
                  LossQuality = classify_loss_quality folder move_count,
                  TerminationType = classify_termination (map_of hdrs ''Termination''),
                  Tags = map (\<lambda>k. (k, case map_of hdrs k of None \<Rightarrow> [] | Some v \<Rightarrow> v))
                           [''Event'', ''Site'', ''Date'', ''White'', ''Black'', ''Result'',
                            ''WhiteElo'', ''BlackElo'', ''TimeControl'', ''ECO'',
                            ''Termination'', ''Link'']\<rparr>)"

subsection \<open>The contracts in the words of the specification\<close>

text \<open>
  The fallback of the opening resolver as the specification words it: the name of the
  first catalog entry, in catalog order, whose key starts with the first two characters
  of the input; failing that, of the first entry whose key starts with the first
  character; failing that, "Unknown".
\<close>

definition first_entry_with_prefix :: "(string \<times> string) list \<Rightarrow> string \<Rightarrow> string option" where
  "first_entry_with_prefix cat p = map_option snd (find (\<lambda>(key, name). prefix p key) cat)"

definition spec_opening_fallback :: "(string \<times> string) list \<Rightarrow> string \<Rightarrow> string" where
  "spec_opening_fallback cat eco_code =
     (case first_entry_with_prefix cat (take 2 eco_code) of
        Some name \<Rightarrow> name
      | None \<Rightarrow>
          (case first_entry_with_prefix cat (take 1 eco_code) of
             Some name \<Rightarrow> name
           | None \<Rightarrow> ''Unknown''))"

text \<open>
  The termination categories in their priority order, each with the keyword the source
  looks for, and the classification as the specification words it: the category of the
  first keyword contained in the lower-cased text, "Other" when there is none.
\<close>

definition termination_keywords :: "(string \<times> string) list" where
  "termination_keywords =
     [(''checkmate'', ''Checkmate''), (''resignation'', ''Resignation''),
      (''timeout'', ''Timeout''), (''abandoned'', ''Abandoned''),
      (''agreement'', ''Draw by Agreement''), (''repetition'', ''Draw by Repetition''),
      (''stalemate'', ''Stalemate''), (''insufficient'', ''Insufficient Material'')]"

definition termination_categories :: "string list" where
  "termination_categories =
     [''Unknown'', ''Checkmate'', ''Resignation'', ''Timeout'', ''Abandoned'',
      ''Draw by Agreement'', ''Draw by Repetition'', ''Stalemate'',
      ''Insufficient Material'', ''Other'']"

definition spec_first_keyword :: "string \<Rightarrow> string" where
  "spec_first_keyword s =
     (case find (\<lambda>(keyword, category). sublist keyword (lower s)) termination_keywords of
        Some (keyword, category) \<Rightarrow> category
      | None \<Rightarrow> ''Other'')"






text \<open>
  The kinds of lines that the loop of \<^verbatim>\<open>parse_pgn\<close> tells apart, on the line as read:
  a bracketed line, a tag line (a bracketed line that the tag pattern matches), a blank
  line, and a movetext line (neither bracketed nor blank). \<open>blank_after_tag pre\<close> says
  that among the lines \<open>pre\<close> there is a blank line with a tag line somewhere before it.
\<close>

definition is_bracketed :: "string \<Rightarrow> bool" where
  "is_bracketed raw \<longleftrightarrow> startswith (strip raw) ''['' \<and> endswith (strip raw) '']''"

definition is_tag_line :: "string \<Rightarrow> bool" where
  "is_tag_line raw \<longleftrightarrow> is_bracketed raw \<and> re_match_tag (strip raw) \<noteq> None"

definition is_blank :: "string \<Rightarrow> bool" where
  "is_blank raw \<longleftrightarrow> strip raw = []"

definition is_movetext_line :: "string \<Rightarrow> bool" where
  "is_movetext_line raw \<longleftrightarrow> \<not> is_bracketed raw \<and> \<not> is_blank raw"

definition blank_after_tag :: "string list \<Rightarrow> bool" where
  "blank_after_tag pre \<longleftrightarrow>
     (\<exists>j \<in> {0..<length pre}. is_blank (pre ! j) \<and> (\<exists>t \<in> set (take j pre). is_tag_line t))"

text \<open>
  \<open>accumulated block k\<close>: line \<open>k\<close> of the block is a movetext line and a blank line
  with a tag line before it has occurred among the lines before line \<open>k\<close>.
\<close>

definition accumulated :: "string list \<Rightarrow> nat \<Rightarrow> bool" where
  "accumulated block k \<longleftrightarrow> is_movetext_line (block ! k) \<and> blank_after_tag (take k block)"

text \<open>The block of the round-trip example, as lines without and with their line feeds.\<close>

definition example_lines :: "string list" where
  \<open>example_lines =
     [''[White "bob"]'', ''[Black "alice"]'', ''[WhiteElo "1500"]'', ''[BlackElo "1600"]'',
      [], ''1. e4 e5 2. Nf3 Nc6 3. Bb5 1-0'']\<close>

definition example_block :: "string list" where
  "example_block = map (\<lambda>l. l @ [CHR 0x0A]) example_lines"

text \<open>
  Two more inputs for the examples below: a block whose movetext follows the tag line
  without a blank line, and a tag line that comes after the movetext of the example.
\<close>

definition unseparated_block :: "string list" where
  \<open>unseparated_block = [''[White "bob"]'' @ [CHR 0x0A], ''1. e4 e5 2. Nf3 Nc6'' @ [CHR 0x0A]]\<close>

text \<open>
  A number of 4301 digits, and a block whose last move number is that number.
\<close>

definition long_number :: string where
  "long_number = replicate 4301 (CHR ''1'')"


definition late_tag_line :: string where
  \<open>late_tag_line = ''[White "carol"]'' @ [CHR 0x0A]\<close>

section \<open>Properties\<close>

subsection \<open>Helper facts on strings\<close>

lemma startswith_prefix: "startswith s p \<longleftrightarrow> prefix p s"
  by (induction s p rule: startswith.induct) auto

lemma str_in_sublist: "str_in sub s \<longleftrightarrow> sublist sub s"
  by (induction s) (simp_all add: startswith_prefix sublist_Cons_right)

subsection \<open>Length and loss-quality classifiers\<close>

text \<open>
  C4. For every integer move count \<^verbatim>\<open>classify_game_length\<close> returns one of "Quick",
  "Medium", "Long": "Quick" below 20, "Medium" from 20 to 40 inclusive, "Long" above 40.
  The move counts 19, 20, 40, 41 give Quick, Medium, Medium, Long, and every negative
  move count gives "Quick", the lowest bucket.
\<close>

theorem classify_game_length_buckets:
  "classify_game_length n \<in> {''Quick'', ''Medium'', ''Long''}
   \<and> (n < 20 \<longrightarrow> classify_game_length n = ''Quick'')
   \<and> (20 \<le> n \<and> n \<le> 40 \<longrightarrow> classify_game_length n = ''Medium'')
   \<and> (40 < n \<longrightarrow> classify_game_length n = ''Long'')
   \<and> (n < 0 \<longrightarrow> classify_game_length n = ''Quick'')
   \<and> classify_game_length 19 = ''Quick''
   \<and> classify_game_length 20 = ''Medium''
   \<and> classify_game_length 40 = ''Medium''
   \<and> classify_game_length 41 = ''Long''"
  by (simp add: classify_game_length_def)

theorem classify_game_length_buckets_witness:
  "classify_game_length (-3) = ''Quick'' \<and> classify_game_length 7 = ''Quick''
   \<and> classify_game_length 33 = ''Medium'' \<and> classify_game_length 58 = ''Long''"
  using classify_game_length_buckets [of "-3"] classify_game_length_buckets [of 7]
    classify_game_length_buckets [of 33] classify_game_length_buckets [of 58]
  by simp

text \<open>
  C3. \<^verbatim>\<open>classify_loss_quality\<close> returns "N/A" unless the bucket is exactly the string
  "loss" (so "Loss" and "LOSS" give "N/A"); for the bucket "loss" it returns "Quick Loss"
  below 15 moves, "Standard Loss" from 15 to 29, "Well-Fought Loss" from 30 on. The move
  counts 14, 15, 29, 30 give Quick Loss, Standard Loss, Standard Loss, Well-Fought Loss.
\<close>

theorem classify_loss_quality_buckets:
  "(bucket \<noteq> ''loss'' \<longrightarrow> classify_loss_quality bucket n = ''N/A'')
   \<and> (n < 15 \<longrightarrow> classify_loss_quality ''loss'' n = ''Quick Loss'')
   \<and> (15 \<le> n \<and> n < 30 \<longrightarrow> classify_loss_quality ''loss'' n = ''Standard Loss'')
   \<and> (30 \<le> n \<longrightarrow> classify_loss_quality ''loss'' n = ''Well-Fought Loss'')
   \<and> classify_loss_quality ''Loss'' n = ''N/A''
   \<and> classify_loss_quality ''LOSS'' n = ''N/A''
   \<and> classify_loss_quality ''loss'' 14 = ''Quick Loss''
   \<and> classify_loss_quality ''loss'' 15 = ''Standard Loss''
   \<and> classify_loss_quality ''loss'' 29 = ''Standard Loss''
   \<and> classify_loss_quality ''loss'' 30 = ''Well-Fought Loss''"
  by (simp add: classify_loss_quality_def)

theorem classify_loss_quality_buckets_witness:
  "classify_loss_quality ''win'' 12 = ''N/A'' \<and> classify_loss_quality ''loss'' 12 = ''Quick Loss''
   \<and> classify_loss_quality ''draw'' 22 = ''N/A'' \<and> classify_loss_quality ''loss'' 22 = ''Standard Loss''
   \<and> classify_loss_quality ''win'' 45 = ''N/A'' \<and> classify_loss_quality ''loss'' 45 = ''Well-Fought Loss''"
  using classify_loss_quality_buckets [of "''win''" 12] classify_loss_quality_buckets [of "''draw''" 22]
    classify_loss_quality_buckets [of "''win''" 45]
  by simp

subsection \<open>Opening resolver\<close>

lemma ECO_OPENINGS_distinct: "distinct (map fst ECO_OPENINGS)"
  by code_simp

lemma ECO_OPENINGS_keys_nonempty: "list_all (\<lambda>(key, name). key \<noteq> []) ECO_OPENINGS"
  by code_simp

lemma scan_items_first: "scan_items p cat = first_entry_with_prefix cat p"
  by (induction cat) (auto simp: first_entry_with_prefix_def startswith_prefix)

lemma scan_lengths_fallback:
  "(case scan_lengths cat e [2, 1] of Some val \<Rightarrow> val | None \<Rightarrow> ''Unknown'') =
     spec_opening_fallback cat e"
  by (simp add: scan_items_first spec_opening_fallback_def split: option.splits)

lemma opening_name_in_key:
  assumes "distinct (map fst cat)" and "(key, name) \<in> set cat" and "key \<noteq> []"
  shows "opening_name_in cat (Some key) = name"
  using assms by (simp add: opening_name_in_def)

lemma opening_name_in_fallback:
  assumes "e \<noteq> []" and "e \<notin> fst ` set cat"
  shows "opening_name_in cat (Some e) = spec_opening_fallback cat e"
proof -
  from assms(2) have "map_of cat e = None"
    by (simp add: map_of_eq_None_iff)
  with assms(1) have "opening_name_in cat (Some e) =
      (case scan_lengths cat e [2, 1] of Some val \<Rightarrow> val | None \<Rightarrow> ''Unknown'')"
    by (simp add: opening_name_in_def del: scan_lengths.simps)
  then show ?thesis
    by (simp only: scan_lengths_fallback)
qed

text \<open>
  C2. The opening resolver returns "Unknown" for an absent or empty ECO code, the name
  of the entry for an input that is a key of the catalog, and otherwise the name of the
  first entry in catalog order whose key starts with the first two characters of the
  input, failing that of the first entry whose key starts with its first character,
  failing that "Unknown". "B10" gives "Caro-Kann Defense", "B99" gives
  "Sicilian: Najdorf", "Z99" gives "Unknown".
\<close>

theorem get_opening_name_contract:
  "get_opening_name None = ''Unknown''
   \<and> get_opening_name (Some []) = ''Unknown''
   \<and> (\<forall>(key, name) \<in> set ECO_OPENINGS. get_opening_name (Some key) = name)
   \<and> (e \<noteq> [] \<and> e \<notin> fst ` set ECO_OPENINGS \<longrightarrow>
        get_opening_name (Some e) = spec_opening_fallback ECO_OPENINGS e)
   \<and> get_opening_name (Some ''B10'') = ''Caro-Kann Defense''
   \<and> get_opening_name (Some ''B99'') = ''Sicilian: Najdorf''
   \<and> get_opening_name (Some ''Z99'') = ''Unknown''"
proof -
  have absent: "get_opening_name None = ''Unknown''" "get_opening_name (Some []) = ''Unknown''"
    by (simp_all add: get_opening_name_def opening_name_in_def)
  have exact: "\<forall>(key, name) \<in> set ECO_OPENINGS. get_opening_name (Some key) = name"
  proof (clarify)
    fix key name assume mem: "(key, name) \<in> set ECO_OPENINGS"
    with ECO_OPENINGS_keys_nonempty have "key \<noteq> []"
      by (auto simp: list_all_iff)
    with mem show "get_opening_name (Some key) = name"
      unfolding get_opening_name_def
      by (intro opening_name_in_key [OF ECO_OPENINGS_distinct])
  qed
  have fallback: "e \<noteq> [] \<and> e \<notin> fst ` set ECO_OPENINGS \<longrightarrow>
      get_opening_name (Some e) = spec_opening_fallback ECO_OPENINGS e"
    unfolding get_opening_name_def by (simp add: opening_name_in_fallback)
  have b10: "get_opening_name (Some ''B10'') = ''Caro-Kann Defense''"
    by code_simp
  have b99: "get_opening_name (Some ''B99'') = ''Sicilian: Najdorf''"
    by code_simp
  have z99: "get_opening_name (Some ''Z99'') = ''Unknown''"
    by code_simp
  from absent exact fallback b10 b99 z99 show ?thesis by blast
qed

theorem get_opening_name_contract_witness:
  "''C99'' \<noteq> [] \<and> ''C99'' \<notin> fst ` set ECO_OPENINGS
   \<and> (''E04'', ''Catalan Opening'') \<in> set ECO_OPENINGS
   \<and> get_opening_name (Some ''E04'') = ''Catalan Opening''
   \<and> get_opening_name (Some ''C99'') = ''French Defense''"
proof -
  have notkey: "''C99'' \<notin> fst ` set ECO_OPENINGS"
    by code_simp
  have key: "(''E04'', ''Catalan Opening'') \<in> set ECO_OPENINGS"
    by code_simp
  have fb: "spec_opening_fallback ECO_OPENINGS ''C99'' = ''French Defense''"
    by code_simp
  from get_opening_name_contract [of "''C99''"] notkey key fb show ?thesis
    by auto
qed

subsection \<open>Termination classifier\<close>

lemma lower_eq_Nil: "lower s = [] \<longleftrightarrow> s = []"
  by (simp add: lower_def)

lemma classify_termination_first_keyword:
  "s \<noteq> [] \<Longrightarrow> classify_termination (Some s) = spec_first_keyword s"
  by (simp add: classify_termination_def spec_first_keyword_def termination_keywords_def
      str_in_sublist Let_def)

text \<open>
  C8. The termination classifier returns one of the ten categories; absent and empty
  input give "Unknown"; otherwise the result is the category of the first keyword, in
  the fixed priority order, that the lower-cased text contains, so that two texts that
  differ only in case are classified alike; "Other" is the result when no keyword is
  contained.
\<close>

theorem classify_termination_contract:
  "classify_termination t \<in> set termination_categories
   \<and> termination_categories = ''Unknown'' # map snd termination_keywords @ [''Other'']
   \<and> classify_termination None = ''Unknown''
   \<and> classify_termination (Some []) = ''Unknown''
   \<and> (s \<noteq> [] \<longrightarrow> classify_termination (Some s) = spec_first_keyword s)
   \<and> (lower s = lower s' \<longrightarrow> classify_termination (Some s) = classify_termination (Some s'))
   \<and> (s \<noteq> [] \<and> (\<forall>(keyword, category) \<in> set termination_keywords. \<not> sublist keyword (lower s))
        \<longrightarrow> classify_termination (Some s) = ''Other'')"
proof -
  have cats: "classify_termination t \<in> set termination_categories"
    by (simp add: classify_termination_def termination_categories_def Let_def
        split: option.splits)
  have order: "termination_categories = ''Unknown'' # map snd termination_keywords @ [''Other'']"
    by (simp add: termination_categories_def termination_keywords_def)
  have absent: "classify_termination None = ''Unknown''" "classify_termination (Some []) = ''Unknown''"
    by (simp_all add: classify_termination_def)
  have first: "s \<noteq> [] \<longrightarrow> classify_termination (Some s) = spec_first_keyword s"
    by (simp add: classify_termination_first_keyword)
  have ci: "lower s = lower s' \<longrightarrow> classify_termination (Some s) = classify_termination (Some s')"
  proof
    assume eq: "lower s = lower s'"
    then have "s = [] \<longleftrightarrow> s' = []"
      by (metis lower_eq_Nil)
    with eq show "classify_termination (Some s) = classify_termination (Some s')"
      by (simp add: classify_termination_def)
  qed
  have other: "s \<noteq> [] \<and> (\<forall>(keyword, category) \<in> set termination_keywords. \<not> sublist keyword (lower s))
        \<longrightarrow> classify_termination (Some s) = ''Other''"
    by (simp add: classify_termination_def termination_keywords_def str_in_sublist Let_def)
  from cats order absent first ci other show ?thesis by blast
qed

theorem classify_termination_contract_witness:
  "''Bob won by CHECKMATE'' \<noteq> [] \<and> lower ''Bob won by CHECKMATE'' = lower ''bob won by checkmate''
   \<and> classify_termination (Some ''Bob won by CHECKMATE'') = ''Checkmate''
   \<and> classify_termination (Some ''bob won by checkmate'') = ''Checkmate''
   \<and> list_all (\<lambda>(keyword, category). \<not> sublist keyword (lower ''Bob won on time''))
         termination_keywords
   \<and> classify_termination (Some ''Bob won on time'') = ''Other''"
proof -
  have low: "lower ''Bob won by CHECKMATE'' = lower ''bob won by checkmate''"
    by code_simp
  have fk: "spec_first_keyword ''Bob won by CHECKMATE'' = ''Checkmate''"
    by code_simp
  note c = classify_termination_contract
    [where s = "''Bob won by CHECKMATE''" and s' = "''bob won by checkmate''"]
  from c fk have upper: "classify_termination (Some ''Bob won by CHECKMATE'') = ''Checkmate''"
    by simp
  from c low have "classify_termination (Some ''Bob won by CHECKMATE'') =
      classify_termination (Some ''bob won by checkmate'')"
    by blast
  with upper low have ck: "classify_termination (Some ''bob won by checkmate'') = ''Checkmate''"
    by simp
  have none: "list_all (\<lambda>(keyword, category). \<not> sublist keyword (lower ''Bob won on time''))
      termination_keywords"
    by code_simp
  then have "\<forall>(keyword, category) \<in> set termination_keywords.
      \<not> sublist keyword (lower ''Bob won on time'')"
    by (simp add: list_all_iff)
  with classify_termination_contract [where s = "''Bob won on time''"]
  have other: "classify_termination (Some ''Bob won on time'') = ''Other''"
    by blast
  from low upper ck none other show ?thesis by simp
qed

text \<open>
  C1, as amended. The text "Game drawn by repetition" classifies as "Draw by
  Repetition"; the text "White resigned the match" classifies as "Other", because it
  does not contain the keyword "resignation"; an empty or absent termination
  classifies as "Unknown".
\<close>

theorem classify_termination_examples:
  "classify_termination (Some ''Game drawn by repetition'') = ''Draw by Repetition''
   \<and> classify_termination (Some ''White resigned the match'') = ''Other''
   \<and> classify_termination (Some []) = ''Unknown''
   \<and> classify_termination None = ''Unknown''"
  by code_simp

text \<open>
  C1 as the specification states it fails: "White resigned the match" is not classified
  as "Resignation".
\<close>

theorem classify_termination_resigned_counterexample:
  "classify_termination (Some ''White resigned the match'') \<noteq> ''Resignation''"
  by code_simp

subsection \<open>The patterns and the move count\<close>
















lemma int_body_digits: "ds \<noteq> [] \<Longrightarrow> \<forall>c \<in> set ds. is_digit c \<Longrightarrow> int_body ds"
proof (induction ds rule: int_body.induct)
  case 1
  then show ?case by simp
next
  case (2 c)
  then show ?case by simp
next
  case (3 c d r)
  then have "d \<noteq> CHR ''_''" by (auto simp: is_digit_def)
  with 3 show ?case by simp
qed

lemma digit_not_int_space: "is_digit c \<Longrightarrow> \<not> is_int_space c"
  by (auto simp: is_digit_def is_int_space_def Let_def)

lemma digit_not_sign: "is_digit c \<Longrightarrow> c \<noteq> CHR ''-'' \<and> c \<noteq> CHR ''+''"
  by (auto simp: is_digit_def)

lemma py_int_digits:
  assumes "ds \<noteq> []" and "\<forall>c \<in> set ds. is_digit c"
  shows "py_int ds =
    (if length ds \<le> int_max_str_digits then Inr (int (digits_value ds)) else Inl ValueError)"
proof -
  from assms obtain c r where ds: "ds = c # r" by (cases ds) auto
  with assms have c: "is_digit c" by simp
  from assms have "\<not> is_int_space (hd ds)" "\<not> is_int_space (last ds)"
    by (simp_all add: digit_not_int_space)
  with assms(1) have "dropWhile is_int_space ds = ds" "dropWhile is_int_space (rev ds) = rev ds"
    by (cases ds, simp, simp, cases ds rule: rev_cases, simp, simp)
  then have t: "rev (dropWhile is_int_space (rev (dropWhile is_int_space ds))) = ds"
    by simp
  have f: "filter is_digit ds = ds" using assms(2) by simp
  have sign: "(case ds of
               [] \<Rightarrow> (False, [])
             | c # r \<Rightarrow> if c = CHR ''-'' then (True, r)
                        else if c = CHR ''+'' then (False, r)
                        else (False, ds)) = (False, ds)"
    using digit_not_sign [OF c] by (simp add: ds)
  from int_body_digits [OF assms] show ?thesis
    unfolding py_int_def t Let_def sign by (simp add: f)
qed





subsection \<open>The loop of the record parser\<close>

lemma parse_lines_snoc: "parse_lines (pre @ [l]) = parse_line (parse_lines pre) l"
  by (simp add: parse_lines_def)

lemma bracketed_not_blank: "is_bracketed l \<Longrightarrow> \<not> is_blank l"
  by (auto simp: is_bracketed_def is_blank_def)

lemma parse_line_bracketed:
  "is_bracketed l \<Longrightarrow> parse_line st l =
     (case re_match_tag (strip l) of
        Some (key, val) \<Rightarrow> st\<lparr>headers := AList.update key val (headers st)\<rparr>
      | None \<Rightarrow> st)"
  by (simp add: parse_line_def is_bracketed_def Let_def)

lemma parse_line_blank:
  "is_blank l \<Longrightarrow> parse_line st l = (if headers st \<noteq> [] then st\<lparr>in_moves := True\<rparr> else st)"
  by (simp add: parse_line_def is_blank_def Let_def)

lemma parse_line_movetext:
  "is_movetext_line l \<Longrightarrow> parse_line st l =
     (if in_moves st then st\<lparr>moves_text := moves_text st @ '' '' @ strip l\<rparr> else st)"
  by (auto simp: parse_line_def is_movetext_line_def is_bracketed_def is_blank_def Let_def)

lemma line_kinds:
  "is_bracketed l \<or> is_blank l \<or> is_movetext_line l"
  by (auto simp: is_movetext_line_def)

lemma update_not_Nil: "AList.update k v xs \<noteq> []"
  by (cases xs) auto

lemma headers_parse_line:
  "headers (parse_line st l) \<noteq> [] \<longleftrightarrow> headers st \<noteq> [] \<or> is_tag_line l"
proof -
  consider "is_bracketed l" | "is_blank l" | "is_movetext_line l"
    using line_kinds by blast
  then show ?thesis
  proof cases
    case 1
    then show ?thesis
      by (auto simp: parse_line_bracketed is_tag_line_def update_not_Nil split: option.splits)
  next
    case 2
    with bracketed_not_blank have "\<not> is_tag_line l" by (auto simp: is_tag_line_def)
    with 2 show ?thesis by (simp add: parse_line_blank)
  next
    case 3
    then have "\<not> is_tag_line l" by (simp add: is_movetext_line_def is_tag_line_def)
    with 3 show ?thesis by (simp add: parse_line_movetext)
  qed
qed

lemma in_moves_parse_line:
  "in_moves (parse_line st l) \<longleftrightarrow> in_moves st \<or> (is_blank l \<and> headers st \<noteq> [])"
proof -
  consider "is_bracketed l" | "is_blank l" | "is_movetext_line l"
    using line_kinds by blast
  then show ?thesis
  proof cases
    case 1
    with bracketed_not_blank have "\<not> is_blank l" by blast
    with 1 show ?thesis
      by (auto simp: parse_line_bracketed split: option.splits)
  next
    case 2
    then show ?thesis by (simp add: parse_line_blank)
  next
    case 3
    then show ?thesis by (simp add: parse_line_movetext is_movetext_line_def)
  qed
qed

lemma moves_text_parse_line:
  "moves_text (parse_line st l) =
     (if is_movetext_line l \<and> in_moves st then moves_text st @ '' '' @ strip l else moves_text st)"
proof -
  consider "is_bracketed l" | "is_blank l" | "is_movetext_line l"
    using line_kinds by blast
  then show ?thesis
  proof cases
    case 1
    then show ?thesis
      by (auto simp: parse_line_bracketed is_movetext_line_def split: option.splits)
  next
    case 2
    then show ?thesis by (simp add: parse_line_blank is_movetext_line_def)
  next
    case 3
    then show ?thesis by (simp add: parse_line_movetext)
  qed
qed

lemma headers_parse_lines:
  "headers (parse_lines pre) \<noteq> [] \<longleftrightarrow> (\<exists>t \<in> set pre. is_tag_line t)"
proof (induction pre rule: rev_induct)
  case Nil
  show ?case by (simp add: parse_lines_def parse_init_def)
next
  case (snoc l pre)
  then show ?case
    by (auto simp: parse_lines_snoc headers_parse_line)
qed

lemma blank_after_tag_iff:
  "blank_after_tag pre \<longleftrightarrow>
     (\<exists>j < length pre. is_blank (pre ! j) \<and> (\<exists>t \<in> set (take j pre). is_tag_line t))"
  by (auto simp: blank_after_tag_def)

lemma blank_after_tag_snoc:
  "blank_after_tag (pre @ [l]) \<longleftrightarrow>
     blank_after_tag pre \<or> (is_blank l \<and> (\<exists>t \<in> set pre. is_tag_line t))"
proof -
  have "blank_after_tag (pre @ [l]) \<longleftrightarrow>
      (\<exists>j < Suc (length pre). is_blank ((pre @ [l]) ! j) \<and> (\<exists>t \<in> set (take j (pre @ [l])). is_tag_line t))"
    by (simp only: blank_after_tag_iff length_append_singleton)
  also have "\<dots> \<longleftrightarrow>
      (\<exists>j < length pre. is_blank ((pre @ [l]) ! j) \<and> (\<exists>t \<in> set (take j (pre @ [l])). is_tag_line t))
      \<or> (is_blank ((pre @ [l]) ! length pre) \<and> (\<exists>t \<in> set (take (length pre) (pre @ [l])). is_tag_line t))"
    by (simp only: less_Suc_eq) blast
  also have "\<dots> \<longleftrightarrow> blank_after_tag pre \<or> (is_blank l \<and> (\<exists>t \<in> set pre. is_tag_line t))"
    by (auto simp: blank_after_tag_iff nth_append)
  finally show ?thesis .
qed

lemma in_moves_parse_lines: "in_moves (parse_lines pre) \<longleftrightarrow> blank_after_tag pre"
proof (induction pre rule: rev_induct)
  case Nil
  show ?case by (simp add: parse_lines_def parse_init_def blank_after_tag_iff)
next
  case (snoc l pre)
  then show ?case
    by (simp add: parse_lines_snoc in_moves_parse_line blank_after_tag_snoc headers_parse_lines)
qed

lemma moves_text_parse_lines:
  "moves_text (parse_lines block) =
     concat (map (\<lambda>k. '' '' @ strip (block ! k)) (filter (accumulated block) [0..<length block]))"
proof (induction block rule: rev_induct)
  case Nil
  show ?case by (simp add: parse_lines_def parse_init_def)
next
  case (snoc l pre)
  have f: "filter (accumulated (pre @ [l])) [0..<length pre] = filter (accumulated pre) [0..<length pre]"
    by (rule filter_cong) (auto simp: accumulated_def nth_append)
  have m: "map (\<lambda>k. CHR '' '' # strip ((pre @ [l]) ! k)) (filter (accumulated pre) [0..<length pre]) =
      map (\<lambda>k. CHR '' '' # strip (pre ! k)) (filter (accumulated pre) [0..<length pre])"
    by (rule map_cong) (auto simp: nth_append)
  have a: "accumulated (pre @ [l]) (length pre) \<longleftrightarrow> is_movetext_line l \<and> in_moves (parse_lines pre)"
    by (simp add: accumulated_def in_moves_parse_lines)
  show ?case
    by (simp add: parse_lines_snoc moves_text_parse_line snoc.IH f a m)
qed

subsection \<open>Move count\<close>








lemma long_number_digits:
  "long_number \<noteq> []" "\<forall>c \<in> set long_number. is_digit c" "length long_number = 4301"
  by (simp_all add: long_number_def is_digit_def)







subsection \<open>The enriched record\<close>

text \<open>
  C5. The block with the tag lines [White "bob"], [Black "alice"], [WhiteElo "1500"],
  [BlackElo "1600"], a blank line and the movetext line "1. e4 e5 2. Nf3 Nc6 3. Bb5 1-0",
  processed for the user "bob", gives the colour "White", the rating differential +100,
  the move count 3 and the length bucket "Quick", whatever the directory and the file
  are called, with the line feeds at the ends of the lines and without them.
\<close>

theorem roundtrip_example:
  "(\<exists>g. analyze_game ''bob'' folder file example_block = Inr g
        \<and> ColorPlayed g = ''White'' \<and> RatingDiff g = 100 \<and> MoveCount g = 3
        \<and> GameLength g = ''Quick'')
   \<and> (\<exists>g. analyze_game ''bob'' folder file example_lines = Inr g
        \<and> ColorPlayed g = ''White'' \<and> RatingDiff g = 100 \<and> MoveCount g = 3
        \<and> GameLength g = ''Quick'')"
proof -
  let ?hdrs = "[(''White'', ''bob''), (''Black'', ''alice''), (''WhiteElo'', ''1500''),
      (''BlackElo'', ''1600'')]"
  have p1: "parse_pgn example_block = Inr (?hdrs, 3)"
    by code_simp
  have p2: "parse_pgn example_lines = Inr (?hdrs, 3)"
    by code_simp
  have c: "color_played_of ?hdrs ''bob'' = ''White''"
    by code_simp
  have r: "rating_diff_of ?hdrs ''White'' = 100"
    by code_simp
  have l: "classify_game_length 3 = ''Quick''"
    by (simp add: classify_game_length_def)
  from p1 c r l have "\<exists>g. analyze_game ''bob'' folder file example_block = Inr g
        \<and> ColorPlayed g = ''White'' \<and> RatingDiff g = 100 \<and> MoveCount g = 3
        \<and> GameLength g = ''Quick''"
    by (simp add: analyze_game_def Let_def)
  moreover from p2 c r l have "\<exists>g. analyze_game ''bob'' folder file example_lines = Inr g
        \<and> ColorPlayed g = ''White'' \<and> RatingDiff g = 100 \<and> MoveCount g = 3
        \<and> GameLength g = ''Quick''"
    by (simp add: analyze_game_def Let_def)
  ultimately show ?thesis by blast
qed

text \<open>
  C6. The ratings are read with \<^verbatim>\<open>int\<close>, a missing tag counting as 0 without an error;
  when both conversions succeed the differential is the rating of the opponent minus
  the rating of the user, the user being White or Black as the colour played says; when
  either conversion fails the differential is 0. Once \<^verbatim>\<open>parse_pgn\<close> has returned, the
  rest of the loop body gives the row without an error, and the differential of the
  row is computed from the colour played of that row.
\<close>

theorem rating_diff_contract:
  "(map_of hdrs key = None \<longrightarrow> int_of_header hdrs key = Inr 0)
   \<and> (map_of hdrs key = Some s \<longrightarrow> int_of_header hdrs key = py_int s)
   \<and> (int_of_header hdrs ''WhiteElo'' = Inr white_elo \<and> int_of_header hdrs ''BlackElo'' = Inr black_elo \<longrightarrow>
        rating_diff_of hdrs ''White'' = black_elo - white_elo
        \<and> rating_diff_of hdrs ''Black'' = white_elo - black_elo)
   \<and> (int_of_header hdrs ''WhiteElo'' = Inl e \<or> int_of_header hdrs ''BlackElo'' = Inl e \<longrightarrow>
        rating_diff_of hdrs color = 0)
   \<and> (parse_pgn block = Inr (tags, n) \<longrightarrow>
        (\<exists>g. analyze_game username folder filename block = Inr g
          \<and> ColorPlayed g = color_played_of tags username
          \<and> ColorPlayed g \<in> {''White'', ''Black''}
          \<and> RatingDiff g = rating_diff_of tags (ColorPlayed g)))"
proof -
  have missing: "map_of hdrs key = None \<longrightarrow> int_of_header hdrs key = Inr 0"
    and present: "map_of hdrs key = Some s \<longrightarrow> int_of_header hdrs key = py_int s"
    by (simp_all add: int_of_header_def)
  have diff: "int_of_header hdrs ''WhiteElo'' = Inr white_elo \<and> int_of_header hdrs ''BlackElo'' = Inr black_elo \<longrightarrow>
        rating_diff_of hdrs ''White'' = black_elo - white_elo
        \<and> rating_diff_of hdrs ''Black'' = white_elo - black_elo"
    by (simp add: rating_diff_of_def)
  have zero: "int_of_header hdrs ''WhiteElo'' = Inl e \<or> int_of_header hdrs ''BlackElo'' = Inl e \<longrightarrow>
        rating_diff_of hdrs color = 0"
    by (auto simp: rating_diff_of_def split: sum.splits)
  have row: "parse_pgn block = Inr (tags, n) \<longrightarrow>
        (\<exists>g. analyze_game username folder filename block = Inr g
          \<and> ColorPlayed g = color_played_of tags username
          \<and> ColorPlayed g \<in> {''White'', ''Black''}
          \<and> RatingDiff g = rating_diff_of tags (ColorPlayed g))"
    by (simp add: analyze_game_def Let_def color_played_of_def)
  from missing present diff zero row show ?thesis by blast
qed

theorem rating_diff_contract_witness:
  "map_of [(''White'', ''bob''), (''WhiteElo'', ''15x0'')] ''BlackElo'' = None
   \<and> int_of_header [(''White'', ''bob''), (''WhiteElo'', ''15x0'')] ''BlackElo'' = Inr 0
   \<and> int_of_header [(''White'', ''bob''), (''WhiteElo'', ''15x0'')] ''WhiteElo'' = Inl ValueError
   \<and> rating_diff_of [(''White'', ''bob''), (''WhiteElo'', ''15x0'')] ''White'' = 0
   \<and> map_of [(''WhiteElo'', ''1500''), (''BlackElo'', ''1600'')] ''WhiteElo'' = Some ''1500''
   \<and> int_of_header [(''WhiteElo'', ''1500''), (''BlackElo'', ''1600'')] ''WhiteElo'' = Inr 1500
   \<and> int_of_header [(''WhiteElo'', ''1500''), (''BlackElo'', ''1600'')] ''BlackElo'' = Inr 1600
   \<and> rating_diff_of [(''WhiteElo'', ''1500''), (''BlackElo'', ''1600'')] ''White'' = 100
   \<and> rating_diff_of [(''WhiteElo'', ''1500''), (''BlackElo'', ''1600'')] ''Black'' = - 100
   \<and> int_of_header [(''WhiteElo'', ''1500''), (''BlackElo'', long_number)] ''BlackElo'' = Inl ValueError
   \<and> rating_diff_of [(''WhiteElo'', ''1500''), (''BlackElo'', long_number)] ''Black'' = 0
   \<and> (\<exists>g. analyze_game ''alice'' ''loss'' ''game.pgn'' example_block = Inr g
         \<and> ColorPlayed g = ''Black'' \<and> RatingDiff g = - 100)"
proof -
  let ?h = "[(''White'', ''bob''), (''WhiteElo'', ''15x0'')]"
  let ?g = "[(''WhiteElo'', ''1500''), (''BlackElo'', ''1600'')]"
  let ?l = "[(''WhiteElo'', ''1500''), (''BlackElo'', long_number)]"
  let ?e = "[(''White'', ''bob''), (''Black'', ''alice''), (''WhiteElo'', ''1500''),
      (''BlackElo'', ''1600'')]"
  have m: "map_of ?h ''BlackElo'' = None"
    by simp
  have w: "int_of_header ?h ''WhiteElo'' = Inl ValueError"
    by code_simp
  note t = rating_diff_contract [where hdrs = ?h and key = "''BlackElo''" and e = ValueError
      and color = "''White''"]
  from t m have b0: "int_of_header ?h ''BlackElo'' = Inr 0" by blast
  from t w have z: "rating_diff_of ?h ''White'' = 0" by blast
  have k: "map_of ?g ''WhiteElo'' = Some ''1500''"
    by simp
  have p: "py_int ''1500'' = Inr 1500"
    by code_simp
  have b: "int_of_header ?g ''BlackElo'' = Inr 1600"
    by code_simp
  note u = rating_diff_contract [where hdrs = ?g and key = "''WhiteElo''" and s = "''1500''"
      and white_elo = 1500 and black_elo = 1600]
  from u k p have w1: "int_of_header ?g ''WhiteElo'' = Inr 1500" by simp
  with u b have "rating_diff_of ?g ''White'' = 1600 - 1500 \<and> rating_diff_of ?g ''Black'' = 1500 - 1600"
    by blast
  then have d: "rating_diff_of ?g ''White'' = 100" "rating_diff_of ?g ''Black'' = - 100"
    by simp_all
  have kl: "map_of ?l ''BlackElo'' = Some long_number"
    by simp
  from py_int_digits [OF long_number_digits(1,2)]
  have pl: "py_int long_number = Inl ValueError"
    by (simp add: long_number_digits(3) int_max_str_digits_def)
  note v = rating_diff_contract [where hdrs = ?l and key = "''BlackElo''" and s = long_number
      and e = ValueError and color = "''Black''"]
  from v kl pl have bl: "int_of_header ?l ''BlackElo'' = Inl ValueError" by simp
  with v have zl: "rating_diff_of ?l ''Black'' = 0" by blast
  have pe: "parse_pgn example_block = Inr (?e, 3)"
    by code_simp
  have ce: "color_played_of ?e ''alice'' = ''Black''"
    by code_simp
  have re: "rating_diff_of ?e ''Black'' = - 100"
    by code_simp
  from rating_diff_contract [where block = example_block and tags = ?e and n = 3
      and username = "''alice''" and folder = "''loss''" and filename = "''game.pgn''"] pe
  obtain g where "analyze_game ''alice'' ''loss'' ''game.pgn'' example_block = Inr g"
    "ColorPlayed g = color_played_of ?e ''alice''"
    "RatingDiff g = rating_diff_of ?e (ColorPlayed g)"
    by blast
  with ce re have row: "\<exists>g. analyze_game ''alice'' ''loss'' ''game.pgn'' example_block = Inr g
         \<and> ColorPlayed g = ''Black'' \<and> RatingDiff g = - 100"
    by simp
  from m b0 w z k w1 b d bl zl row show ?thesis by blast
qed

subsection \<open>Lines of the block\<close>

lemma no_accumulation:
  assumes "\<forall>k \<in> {0..<length block}. is_movetext_line (block ! k) \<longrightarrow> \<not> blank_after_tag (take k block)"
  shows "moves_text (parse_lines block) = []"
proof -
  from assms have "filter (accumulated block) [0..<length block] = []"
    by (auto simp: filter_empty_conv accumulated_def)
  then show ?thesis by (simp add: moves_text_parse_lines)
qed

lemma move_count_of_Nil: "move_count_of [] = Inr 0"
  by (simp add: move_count_of_def)

text \<open>
  C9. When a block has a tag line but no blank line between a tag line and the movetext
  (no movetext line is preceded by a blank line that has a tag line before it), the
  parser accumulates no movetext and returns the move count 0, also when the lines carry
  move-number markers. A line that is neither blank nor bracketed is dropped unless a
  blank line has occurred after a tag was recorded, and appended to the buffer otherwise.
\<close>

theorem no_blank_line_no_movetext:
  "((\<exists>t \<in> set block. is_tag_line t)
     \<and> (\<forall>k \<in> {0..<length block}. is_movetext_line (block ! k) \<longrightarrow> \<not> blank_after_tag (take k block))
     \<longrightarrow> moves_text (parse_lines block) = []
         \<and> parse_pgn block = Inr (headers (parse_lines block), 0))
   \<and> (is_movetext_line l \<and> \<not> blank_after_tag pre \<longrightarrow>
         moves_text (parse_lines (pre @ [l])) = moves_text (parse_lines pre))
   \<and> (is_movetext_line l \<and> blank_after_tag pre \<longrightarrow>
         moves_text (parse_lines (pre @ [l])) = moves_text (parse_lines pre) @ '' '' @ strip l)"
proof -
  have whole: "(\<exists>t \<in> set block. is_tag_line t)
     \<and> (\<forall>k \<in> {0..<length block}. is_movetext_line (block ! k) \<longrightarrow> \<not> blank_after_tag (take k block))
     \<longrightarrow> moves_text (parse_lines block) = []
         \<and> parse_pgn block = Inr (headers (parse_lines block), 0)"
  proof (intro impI, elim conjE)
    assume "\<forall>k \<in> {0..<length block}. is_movetext_line (block ! k) \<longrightarrow> \<not> blank_after_tag (take k block)"
    then have "moves_text (parse_lines block) = []"
      by (rule no_accumulation)
    then show "moves_text (parse_lines block) = []
         \<and> parse_pgn block = Inr (headers (parse_lines block), 0)"
      by (simp add: parse_pgn_def move_count_of_Nil Let_def)
  qed
  have discarded: "is_movetext_line l \<and> \<not> blank_after_tag pre \<longrightarrow>
         moves_text (parse_lines (pre @ [l])) = moves_text (parse_lines pre)"
    by (simp add: parse_lines_snoc moves_text_parse_line in_moves_parse_lines)
  have kept: "is_movetext_line l \<and> blank_after_tag pre \<longrightarrow>
         moves_text (parse_lines (pre @ [l])) = moves_text (parse_lines pre) @ '' '' @ strip l"
    by (simp add: parse_lines_snoc moves_text_parse_line in_moves_parse_lines)
  from whole discarded kept show ?thesis by blast
qed

theorem no_blank_line_no_movetext_witness:
  "(\<exists>t \<in> set unseparated_block. is_tag_line t)
   \<and> \<not> is_movetext_line (unseparated_block ! 0)
   \<and> is_movetext_line (unseparated_block ! 1)
   \<and> \<not> blank_after_tag (take 1 unseparated_block)
   \<and> findall_moves (strip (unseparated_block ! 1)) = [''1'', ''2'']
   \<and> moves_text (parse_lines unseparated_block) = []
   \<and> parse_pgn unseparated_block = Inr ([(''White'', ''bob'')], 0)
   \<and> moves_text (parse_lines (take 1 unseparated_block @ [unseparated_block ! 1])) =
       moves_text (parse_lines (take 1 unseparated_block))
   \<and> is_movetext_line (example_block ! 5)
   \<and> blank_after_tag (take 5 example_block)
   \<and> moves_text (parse_lines (take 5 example_block)) = []
   \<and> moves_text (parse_lines (take 5 example_block @ [example_block ! 5])) =
       '' 1. e4 e5 2. Nf3 Nc6 3. Bb5 1-0''"
proof -
  have tag: "\<exists>t \<in> set unseparated_block. is_tag_line t"
    by code_simp
  have len: "length unseparated_block = 2"
    by (simp add: unseparated_block_def)
  have first: "\<not> is_movetext_line (unseparated_block ! 0)"
    by code_simp
  have second: "\<not> blank_after_tag (take 1 unseparated_block)"
    by code_simp
  have sep: "\<forall>k \<in> {0..<length unseparated_block}.
      is_movetext_line (unseparated_block ! k) \<longrightarrow> \<not> blank_after_tag (take k unseparated_block)"
  proof
    fix k assume "k \<in> {0..<length unseparated_block}"
    then have "k = 0 \<or> k = 1" by (auto simp: len)
    with first second show "is_movetext_line (unseparated_block ! k) \<longrightarrow>
        \<not> blank_after_tag (take k unseparated_block)"
      by auto
  qed
  have mv: "is_movetext_line (unseparated_block ! 1)"
    by code_simp
  have marks: "findall_moves (strip (unseparated_block ! 1)) = [''1'', ''2'']"
    by code_simp
  have h: "headers (parse_lines unseparated_block) = [(''White'', ''bob'')]"
    by code_simp
  from no_blank_line_no_movetext [of unseparated_block] tag sep h
  have whole: "moves_text (parse_lines unseparated_block) = []
      \<and> parse_pgn unseparated_block = Inr ([(''White'', ''bob'')], 0)"
    by simp
  from no_blank_line_no_movetext
    [where l = "unseparated_block ! 1" and pre = "take 1 unseparated_block"] mv second
  have dropped: "moves_text (parse_lines (take 1 unseparated_block @ [unseparated_block ! 1])) =
       moves_text (parse_lines (take 1 unseparated_block))"
    by blast
  have mv5: "is_movetext_line (example_block ! 5)"
    by code_simp
  have sep5: "blank_after_tag (take 5 example_block)"
    by code_simp
  have before: "moves_text (parse_lines (take 5 example_block)) = []"
    by code_simp
  have line: "strip (example_block ! 5) = ''1. e4 e5 2. Nf3 Nc6 3. Bb5 1-0''"
    by code_simp
  from no_blank_line_no_movetext
    [where l = "example_block ! 5" and pre = "take 5 example_block"] mv5 sep5
  have "moves_text (parse_lines (take 5 example_block @ [example_block ! 5])) =
       moves_text (parse_lines (take 5 example_block)) @ '' '' @ strip (example_block ! 5)"
    by blast
  with before line
  have kept: "moves_text (parse_lines (take 5 example_block @ [example_block ! 5])) =
       '' 1. e4 e5 2. Nf3 Nc6 3. Bb5 1-0''"
    by simp
  from tag first second mv marks whole dropped mv5 sep5 before kept show ?thesis by blast
qed

text \<open>
  C10. A line that after trimming begins with "[" and ends with "]" is a tag-line
  candidate wherever it stands, also after the movetext has begun: when the tag pattern
  matches, the tag is recorded and replaces an earlier value of the same key; the
  movetext buffer stays as it is. The buffer of a block consists of lines that are not
  bracketed.
\<close>

theorem bracketed_line_tag_candidate:
  "(is_bracketed l \<longrightarrow>
      moves_text (parse_lines (pre @ [l])) = moves_text (parse_lines pre)
      \<and> in_moves (parse_lines (pre @ [l])) = in_moves (parse_lines pre)
      \<and> (\<forall>key val. re_match_tag (strip l) = Some (key, val) \<longrightarrow>
            headers (parse_lines (pre @ [l])) = AList.update key val (headers (parse_lines pre))
            \<and> map_of (headers (parse_lines (pre @ [l]))) = (map_of (headers (parse_lines pre)))(key \<mapsto> val))
      \<and> (re_match_tag (strip l) = None \<longrightarrow>
            headers (parse_lines (pre @ [l])) = headers (parse_lines pre)))
   \<and> moves_text (parse_lines block) =
        concat (map (\<lambda>k. '' '' @ strip (block ! k)) (filter (accumulated block) [0..<length block]))
   \<and> (\<forall>k. accumulated block k \<longrightarrow> \<not> is_bracketed (block ! k))"
proof -
  have step: "is_bracketed l \<longrightarrow>
      moves_text (parse_lines (pre @ [l])) = moves_text (parse_lines pre)
      \<and> in_moves (parse_lines (pre @ [l])) = in_moves (parse_lines pre)
      \<and> (\<forall>key val. re_match_tag (strip l) = Some (key, val) \<longrightarrow>
            headers (parse_lines (pre @ [l])) = AList.update key val (headers (parse_lines pre))
            \<and> map_of (headers (parse_lines (pre @ [l]))) = (map_of (headers (parse_lines pre)))(key \<mapsto> val))
      \<and> (re_match_tag (strip l) = None \<longrightarrow>
            headers (parse_lines (pre @ [l])) = headers (parse_lines pre))"
    by (auto simp: parse_lines_snoc parse_line_bracketed update_conv' split: option.splits)
  have only: "\<forall>k. accumulated block k \<longrightarrow> \<not> is_bracketed (block ! k)"
    by (simp add: accumulated_def is_movetext_line_def)
  from step moves_text_parse_lines only show ?thesis by blast
qed

theorem bracketed_line_tag_candidate_witness:
  "is_bracketed late_tag_line
   \<and> in_moves (parse_lines example_block)
   \<and> in_moves (parse_lines (example_block @ [late_tag_line]))
   \<and> map_of (headers (parse_lines example_block)) ''White'' = Some ''bob''
   \<and> map_of (headers (parse_lines (example_block @ [late_tag_line]))) ''White'' = Some ''carol''
   \<and> moves_text (parse_lines (example_block @ [late_tag_line])) = '' 1. e4 e5 2. Nf3 Nc6 3. Bb5 1-0''
   \<and> is_bracketed ''[1. e4 e5]'' \<and> re_match_tag (strip ''[1. e4 e5]'') = None
   \<and> headers (parse_lines (example_block @ [''[1. e4 e5]''])) = headers (parse_lines example_block)
   \<and> moves_text (parse_lines (example_block @ [''[1. e4 e5]''])) = '' 1. e4 e5 2. Nf3 Nc6 3. Bb5 1-0''"
proof -
  have b: "is_bracketed late_tag_line"
    by code_simp
  have m: "re_match_tag (strip late_tag_line) = Some (''White'', ''carol'')"
    by code_simp
  have i: "in_moves (parse_lines example_block)"
    by code_simp
  have w: "map_of (headers (parse_lines example_block)) ''White'' = Some ''bob''"
    by code_simp
  have t: "moves_text (parse_lines example_block) = '' 1. e4 e5 2. Nf3 Nc6 3. Bb5 1-0''"
    by code_simp
  note c = bracketed_line_tag_candidate [of late_tag_line example_block "[]", THEN conjunct1]
  from c b i have i': "in_moves (parse_lines (example_block @ [late_tag_line]))"
    by blast
  from c b t have t': "moves_text (parse_lines (example_block @ [late_tag_line])) =
      '' 1. e4 e5 2. Nf3 Nc6 3. Bb5 1-0''"
    by simp
  from c b m have "map_of (headers (parse_lines (example_block @ [late_tag_line]))) =
      (map_of (headers (parse_lines example_block)))(''White'' \<mapsto> ''carol'')"
    by blast
  then have w': "map_of (headers (parse_lines (example_block @ [late_tag_line]))) ''White'' = Some ''carol''"
    by simp
  have b2: "is_bracketed ''[1. e4 e5]''"
    by code_simp
  have m2: "re_match_tag (strip ''[1. e4 e5]'') = None"
    by code_simp
  note d = bracketed_line_tag_candidate [of "''[1. e4 e5]''" example_block "[]", THEN conjunct1]
  from d b2 m2 have h2: "headers (parse_lines (example_block @ [''[1. e4 e5]''])) =
      headers (parse_lines example_block)"
    by blast
  from d b2 t have t2: "moves_text (parse_lines (example_block @ [''[1. e4 e5]''])) =
      '' 1. e4 e5 2. Nf3 Nc6 3. Bb5 1-0''"
    by simp
  from b i i' w w' t' b2 m2 h2 t2 show ?thesis by blast
qed

end
